theory Spec2Isabelle
  imports Main
begin

section \<open>Data model of the resource loader\<close>

text \<open>
  The loader of \<^verbatim>\<open>pc.resources\<close> keeps its tables and counters in the fields of one
  object. Identifiers, hashes and type tags are JavaScript strings; request objects and promises are mutable objects that are
  shared by reference, so both live in explicit stores indexed by references.
  Keys of the tables are taken to be ordinary strings, not names of properties that every
  JavaScript object inherits (\<^verbatim>\<open>constructor\<close>, \<^verbatim>\<open>toString\<close>, ...).
\<close>

type_synonym ident = string
type_synonym hash = string
type_synonym rtype = string
type_synonym cls = string
type_synonym data = string
type_synonym rid = nat
type_synonym pid = nat

text \<open>
  A resource is an object; \<open>classes\<close> lists the constructors it is an instance of, which is
  all that \<^verbatim>\<open>resource instanceof request.Type\<close> reads. A value of type \<open>resource option\<close>
  is what a JavaScript variable holding a resource may hold: \<open>None\<close> stands for the falsy
  values \<^verbatim>\<open>undefined\<close> and \<^verbatim>\<open>null\<close>.
\<close>

datatype resource = Resource (classes: "cls list") (body: string)

text \<open>
  Values that reject a promise or are thrown: a plain string (the loader's own message), the
  \<^verbatim>\<open>TypeError\<close> of a property access on \<^verbatim>\<open>undefined\<close>, and an \<^verbatim>\<open>Error\<close> object.
\<close>

datatype err = Str string | TypeError | ErrorObj string

text \<open>
  \<^verbatim>\<open>ResourceRequest\<close>: the fields of the constructor, and \<open>rtype\<close> and \<open>Type\<close> for the
  prototype properties \<^verbatim>\<open>type\<close> and \<^verbatim>\<open>Type\<close> of the request's class. \<open>seq\<close> is the field
  \<^verbatim>\<open>id\<close> and \<open>identifier_of\<close> the field \<^verbatim>\<open>identifier\<close>. The field \<^verbatim>\<open>alternatives\<close> is
  never read or written by the loader and is left out.
\<close>

record request =
  seq :: "nat option"
  canonical :: ident
  promises :: "pid list"
  children :: "rid list"
  rdata :: "data option"
  result :: "resource option"
  identifier_of :: ident
  rtype :: rtype
  Type :: "cls option"

definition ResourceRequest ::
  "rtype \<Rightarrow> cls option \<Rightarrow> ident \<Rightarrow> data option \<Rightarrow> resource option \<Rightarrow> request" where
  "ResourceRequest t T i d res =
     \<lparr>seq = None, canonical = i, promises = [], children = [], rdata = d, result = res,
      identifier_of = i, rtype = t, Type = T\<rparr>"

text \<open>
  A handler is an external collaborator. Its \<^verbatim>\<open>open\<close> is given by what it does to the loader:
  the batches of new request objects it passes to \<^verbatim>\<open>loader.request(batch, {parent: request})\<close>
  while it runs, and then the resource it returns or the exception it throws. Its \<^verbatim>\<open>clone\<close>
  is a function of the resource and the request. Its \<^verbatim>\<open>load\<close> returns a promise that the
  environment settles later (see \<open>load_settles\<close> below).
\<close>

datatype open_result = OpenResult (nested: "request list list") (outcome: "err + resource option")

datatype handler = Handler
  (h_open: "data \<Rightarrow> request \<Rightarrow> open_result")
  (h_clone: "resource option \<Rightarrow> request \<Rightarrow> resource option")

text \<open>
  Modelled from the spec: \<^verbatim>\<open>pc.promise\<close> (the promise library, \<^verbatim>\<open>Promise\<close> and \<^verbatim>\<open>all\<close>) is
  not among the sources. A promise is pending or settled once and for all; callbacks
  registered with \<^verbatim>\<open>then\<close> never run synchronously but are queued when the promise is or becomes
  settled; \<^verbatim>\<open>all\<close> fulfils with the array of values in the order of its input once every
  member has fulfilled, and rejects with the first rejection. The callbacks the loader
  registers are the constructors of \<open>reaction\<close>, one for each \<^verbatim>\<open>then\<close> in the source;
  \<open>AllElem A\<close> is the callback that \<^verbatim>\<open>all\<close> registers on each member of the promise \<open>A\<close>
  it returns.
\<close>

datatype pvalue = VRes "resource option" | VData data | VArr "resource option list"

datatype outcome = Fulfilled pvalue | Rejected err

datatype reaction =
    DedupThen rid pid
  | LoadThen rid pid
  | AllElem pid
  | TopThen pid "rid list"
  | CheckThen pid "resource option list" "rid list"

datatype promise = Promise (settled: "outcome option") (reactions: "reaction list")

text \<open>
  What the loader emits with \<^verbatim>\<open>fire\<close>, and its calls of the handlers' methods, are recorded in
  a trace. \<open>EvProgress l r\<close> stands for the value \<^verbatim>\<open>loaded / requested\<close> with \<open>l\<close> and \<open>r\<close>
  the two counters.
\<close>

datatype event =
    EvRequest rid
  | EvError rid err
  | EvProgress nat nat
  | EvLoad rid "resource option"
  | EvComplete "resource option list"
  | CallLoad rid pid
  | CallOpen rid
  | CallClone rid

record loader =
  handlers :: "rtype \<rightharpoonup> handler"
  requests :: "ident \<rightharpoonup> rid"
  cache :: "hash \<rightharpoonup> resource"
  hashes :: "ident \<rightharpoonup> hash"
  canonicals :: "hash \<rightharpoonup> ident"
  requested :: nat
  loaded :: nat
  sequence :: nat
  heap :: "rid \<Rightarrow> request"
  nextRequest :: rid
  store :: "pid \<Rightarrow> promise"
  nextPromise :: pid
  alls :: "pid \<Rightarrow> pid list"
  queue :: "(reaction \<times> outcome) list"
  trace :: "event list"

definition ResourceLoader :: loader where
  "ResourceLoader =
     \<lparr>handlers = Map.empty, requests = Map.empty, cache = Map.empty, hashes = Map.empty,
      canonicals = Map.empty, requested = 0, loaded = 0, sequence = 0,
      heap = (\<lambda>_. ResourceRequest [] None [] None None), nextRequest = 0,
      store = (\<lambda>_. Promise None []), nextPromise = 0,
      alls = (\<lambda>_. []), queue = [], trace = []\<rparr>"

text \<open>\<^verbatim>\<open>if (s)\<close> on a table entry that holds a string: absent and empty entries are falsy.\<close>

fun truthy :: "string option \<Rightarrow> bool" where
  "truthy None = False"
| "truthy (Some s) = (s \<noteq> [])"

section \<open>Hash registry and cache\<close>

definition registerHandler :: "rtype \<Rightarrow> handler \<Rightarrow> loader \<Rightarrow> err + loader" where
  "registerHandler t h L =
     (if t = [] then Inl (ErrorObj ''ResourceRequests must have a type'')
      else Inr (L\<lparr>handlers := (handlers L)(t \<mapsto> h)\<rparr>))"

definition registerHash :: "hash \<Rightarrow> ident \<Rightarrow> loader \<Rightarrow> loader" where
  "registerHash h i L =
     (let L1 = (if \<not> truthy (hashes L i) then L\<lparr>hashes := (hashes L)(i \<mapsto> h)\<rparr> else L)
      in if \<not> truthy (canonicals L1 h) then L1\<lparr>canonicals := (canonicals L1)(h \<mapsto> i)\<rparr>
         else L1)"

definition getHash :: "loader \<Rightarrow> ident \<Rightarrow> hash option" where
  "getHash L i = hashes L i"

definition unregisterHash :: "ident \<Rightarrow> loader \<Rightarrow> loader" where
  "unregisterHash i L =
     (case getHash L i of
        None \<Rightarrow> L
      | Some h \<Rightarrow>
          if h \<noteq> [] then L\<lparr>canonicals := (canonicals L)(h := None),
                            hashes := (hashes L)(i := None)\<rparr>
          else L)"

definition addToCache :: "ident \<Rightarrow> resource option \<Rightarrow> loader \<Rightarrow> loader" where
  "addToCache i res L =
     (case getHash L i of
        None \<Rightarrow> L
      | Some h \<Rightarrow> if h \<noteq> [] then L\<lparr>cache := (cache L)(h := res)\<rparr> else L)"

definition getFromCache :: "ident \<Rightarrow> loader \<Rightarrow> resource option" where
  "getFromCache i L =
     (case getHash L i of
        None \<Rightarrow> None
      | Some h \<Rightarrow> if h \<noteq> [] then cache L h else None)"

definition removeFromCache :: "ident \<Rightarrow> loader \<Rightarrow> loader" where
  "removeFromCache i L =
     (case getHash L i of
        None \<Rightarrow> L
      | Some h \<Rightarrow> if h \<noteq> [] then L\<lparr>cache := (cache L)(h := None)\<rparr> else L)"

definition resetProgress :: "loader \<Rightarrow> loader" where
  "resetProgress L = L\<lparr>requested := 0, loaded := 0\<rparr>"

text \<open>A sequence of \<^verbatim>\<open>registerHash(hash, identifier)\<close> calls, in order.\<close>

fun registerHashes :: "(hash \<times> ident) list \<Rightarrow> loader \<Rightarrow> loader" where
  "registerHashes [] L = L"
| "registerHashes ((h, i) # cs) L = registerHashes cs (registerHash h i L)"

section \<open>Promises\<close>

definition fire :: "event \<Rightarrow> loader \<Rightarrow> loader" where
  "fire e L = L\<lparr>trace := trace L @ [e]\<rparr>"

definition newPromise :: "loader \<Rightarrow> pid \<times> loader" where
  "newPromise L =
     (nextPromise L,
      L\<lparr>store := (store L)(nextPromise L := Promise None []),
        nextPromise := Suc (nextPromise L)\<rparr>)"

text \<open>Settling a settled promise does nothing; settling a pending one queues its callbacks.\<close>

definition settle :: "pid \<Rightarrow> outcome \<Rightarrow> loader \<Rightarrow> loader" where
  "settle p out L =
     (case settled (store L p) of
        Some _ \<Rightarrow> L
      | None \<Rightarrow>
          L\<lparr>store := (store L)(p := Promise (Some out) []),
            queue := queue L @ map (\<lambda>rx. (rx, out)) (reactions (store L p))\<rparr>)"

definition resolve :: "pid \<Rightarrow> pvalue \<Rightarrow> loader \<Rightarrow> loader" where
  "resolve p v L = settle p (Fulfilled v) L"

definition reject :: "pid \<Rightarrow> err \<Rightarrow> loader \<Rightarrow> loader" where
  "reject p e L = settle p (Rejected e) L"

definition then_on :: "pid \<Rightarrow> reaction \<Rightarrow> loader \<Rightarrow> loader" where
  "then_on p rx L =
     (case settled (store L p) of
        Some out \<Rightarrow> L\<lparr>queue := queue L @ [(rx, out)]\<rparr>
      | None \<Rightarrow>
          L\<lparr>store := (store L)(p := Promise None (reactions (store L p) @ [rx]))\<rparr>)"

fun all_subscribe :: "pid \<Rightarrow> pid list \<Rightarrow> loader \<Rightarrow> loader" where
  "all_subscribe A [] L = L"
| "all_subscribe A (p # ps) L = all_subscribe A ps (then_on p (AllElem A) L)"

text \<open>\<open>alls L A\<close> holds the members of the promise \<open>A\<close> made by \<^verbatim>\<open>all\<close>.\<close>

definition promise_all :: "pid list \<Rightarrow> loader \<Rightarrow> pid \<times> loader" where
  "promise_all ps L =
     (let (A, L1) = newPromise L;
          L2 = L1\<lparr>alls := (alls L1)(A := ps)\<rparr>
      in if ps = [] then (A, resolve A (VArr []) L2) else (A, all_subscribe A ps L2))"

definition fulfilled :: "loader \<Rightarrow> pid \<Rightarrow> bool" where
  "fulfilled L p = (case settled (store L p) of Some (Fulfilled v) \<Rightarrow> True | _ \<Rightarrow> False)"

fun res_of :: "pvalue \<Rightarrow> resource option" where
  "res_of (VRes x) = x"
| "res_of _ = None"

definition value_of :: "loader \<Rightarrow> pid \<Rightarrow> resource option" where
  "value_of L p = (case settled (store L p) of Some (Fulfilled v) \<Rightarrow> res_of v | _ \<Rightarrow> None)"

text \<open>
  The promise returned by a handler's \<^verbatim>\<open>load\<close> is settled by the environment: fulfilled with
  the fetched data or rejected with an error.
\<close>

definition load_settles :: "pid \<Rightarrow> err + data \<Rightarrow> loader \<Rightarrow> loader" where
  "load_settles lp out L =
     (case out of Inl e \<Rightarrow> reject lp e L | Inr d \<Rightarrow> resolve lp (VData d) L)"

section \<open>Requests\<close>

definition newRequestObject :: "request \<Rightarrow> loader \<Rightarrow> rid \<times> loader" where
  "newRequestObject req L =
     (nextRequest L,
      L\<lparr>heap := (heap L)(nextRequest L := req), nextRequest := Suc (nextRequest L)\<rparr>)"

definition update_request :: "rid \<Rightarrow> (request \<Rightarrow> request) \<Rightarrow> loader \<Rightarrow> loader" where
  "update_request r f L = L\<lparr>heap := (heap L)(r := f (heap L r))\<rparr>"

definition instanceOf :: "resource option \<Rightarrow> cls option \<Rightarrow> bool" where
  "instanceOf res T =
     (case (res, T) of (Some x, Some c) \<Rightarrow> c \<in> set (classes x) | _ \<Rightarrow> False)"

definition makeCanonical :: "rid \<Rightarrow> loader \<Rightarrow> loader" where
  "makeCanonical r L =
     (let hash = getHash L (identifier_of (heap L r))
      in case hash of
           None \<Rightarrow> update_request r (\<lambda>q. q\<lparr>canonical := identifier_of q\<rparr>) L
         | Some h \<Rightarrow>
             (case canonicals L h of
                None \<Rightarrow> update_request r (\<lambda>q. q\<lparr>canonical := identifier_of q\<rparr>) L
              | Some c \<Rightarrow>
                  if h \<noteq> [] \<and> c \<noteq> [] then update_request r (\<lambda>q. q\<lparr>canonical := c\<rparr>) L
                  else update_request r (\<lambda>q. q\<lparr>canonical := identifier_of q\<rparr>) L))"

definition findExistingRequest :: "rid \<Rightarrow> loader \<Rightarrow> rid" where
  "findExistingRequest r L =
     (case requests L (canonical (heap L r)) of
        Some existing \<Rightarrow>
          if rtype (heap L existing) \<noteq> rtype (heap L r) \<or> result (heap L existing) \<noteq> None
             \<or> result (heap L r) \<noteq> None
          then r else existing
      | None \<Rightarrow> r)"

text \<open>
  \<^verbatim>\<open>_postOpen\<close>. The lookup of the handler fails with a \<^verbatim>\<open>TypeError\<close> when the type has no
  handler; the cache has been written by then.
\<close>

definition postOpen :: "resource option \<Rightarrow> rid \<Rightarrow> loader \<Rightarrow> (err + resource option) \<times> loader" where
  "postOpen res r L =
     (let req = heap L r;
          L1 = addToCache (canonical req) res L
      in case handlers L1 (rtype req) of
           None \<Rightarrow> (Inl TypeError, L1)
         | Some h \<Rightarrow>
             (let res' = h_clone h res req;
                  L2 = fire (CallClone r) L1;
                  L3 = L2\<lparr>requests := (requests L2)(canonical req := None)\<rparr>;
                  L4 = L3\<lparr>loaded := Suc (loaded L3)\<rparr>;
                  L5 = fire (EvProgress (loaded L4) (requested L4)) L4;
                  L6 = fire (EvLoad r res') L5
              in (Inr res', L6)))"

text \<open>
  The function passed to the primary promise of \<^verbatim>\<open>_request\<close> (the branch "Check cache, load
  and open the requested data"); \<open>p0\<close> is the promise under construction.
\<close>

definition primary_executor :: "rid \<Rightarrow> pid \<Rightarrow> loader \<Rightarrow> loader" where
  "primary_executor r p0 L =
     (let req = heap L r
      in case handlers L (rtype req) of
           None \<Rightarrow>
             (let msg = ''Missing handler for type: '' @ rtype req
              in reject p0 (Str msg) (fire (EvError r (Str msg)) L))
         | Some h \<Rightarrow>
             (let res = getFromCache (canonical req) L
              in if res \<noteq> None \<and> (Type req = None \<or> instanceOf res (Type req)) then
                   (case postOpen res r L of
                      (Inr res', L1) \<Rightarrow> resolve p0 (VRes res') L1
                    | (Inl e, L1) \<Rightarrow> reject p0 e L1)
                 else
                   (let (lp, L1) = newPromise L;
                        L2 = fire (CallLoad r lp) L1
                    in then_on lp (LoadThen r p0) L2)))"

text \<open>\<^verbatim>\<open>_request\<close>: dispatch one request object and return its newest promise.\<close>

definition private_request :: "rid \<Rightarrow> loader \<Rightarrow> pid \<times> loader" where
  "private_request r L =
     (let L1 = (if seq (heap L r) = None
                then (update_request r (\<lambda>q. q\<lparr>seq := Some (sequence L)\<rparr>) L)
                       \<lparr>sequence := Suc (sequence L)\<rparr>
                else L);
          L2 = fire (EvRequest r) L1;
          (p, L3) = newPromise L2;
          L4 = (if promises (heap L3 r) \<noteq> [] then
                  update_request r (\<lambda>q. q\<lparr>promises := promises q @ [p]\<rparr>)
                    (then_on (hd (promises (heap L3 r))) (DedupThen r p) L3)
                else
                  update_request r (\<lambda>q. q\<lparr>promises := [p]\<rparr>) (primary_executor r p L3));
          L5 = L4\<lparr>requests := (requests L4)(canonical (heap L4 r) \<mapsto> r)\<rparr>;
          L6 = L5\<lparr>requested := Suc (requested L5)\<rparr>
      in (last (promises (heap L6 r)), L6))"

text \<open>
  The function \<^verbatim>\<open>check\<close> inside \<^verbatim>\<open>request\<close>; \<open>agg\<close> is the promise that \<^verbatim>\<open>request\<close> returned.
\<close>

definition check :: "pid \<Rightarrow> resource option list \<Rightarrow> rid list \<Rightarrow> loader \<Rightarrow> loader" where
  "check agg resources rs L =
     (let childRequests = concat (map (\<lambda>r. children (heap L r)) rs);
          childPromises = concat (map (\<lambda>c. promises (heap L c)) childRequests)
      in if childPromises \<noteq> [] then
           (let (A, L1) = promise_all childPromises L
            in then_on A (CheckThen agg resources childRequests) L1)
         else resolve agg (VArr resources) (fire (EvComplete resources) L))"

text \<open>The loop of \<^verbatim>\<open>request\<close> over the requests of the batch.\<close>

fun request_loop ::
  "rid list \<Rightarrow> rid option \<Rightarrow> pid list \<Rightarrow> rid list \<Rightarrow> loader \<Rightarrow> pid list \<times> rid list \<times> loader" where
  "request_loop [] parent ps rq L = (ps, rq, L)"
| "request_loop (ri # rest) parent ps rq L =
     (let r = findExistingRequest ri L;
          L1 = (if r \<noteq> ri then update_request r (\<lambda>q. q\<lparr>rdata := rdata (heap L ri)\<rparr>) L else L);
          L2 = makeCanonical r L1;
          (p, L3) = private_request r L2;
          L4 = (case parent of
                  Some par \<Rightarrow> update_request par (\<lambda>q. q\<lparr>children := children q @ [r]\<rparr>) L3
                | None \<Rightarrow> L3)
      in request_loop rest parent (ps @ [p]) (rq @ [r]) L4)"

definition request :: "rid list \<Rightarrow> rid option \<Rightarrow> loader \<Rightarrow> pid \<times> loader" where
  "request rs parent L =
     (let (agg, L1) = newPromise L;
          (ps, rq, L2) = request_loop rs parent [] [] L1;
          (A, L3) = promise_all ps L2
      in (agg, then_on A (TopThen agg rq) L3))"

text \<open>A caller builds new request objects and passes them to \<^verbatim>\<open>request\<close>.\<close>

fun newRequestObjects :: "request list \<Rightarrow> loader \<Rightarrow> rid list \<times> loader" where
  "newRequestObjects [] L = ([], L)"
| "newRequestObjects (q # qs) L =
     (let (r, L1) = newRequestObject q L; (rs, L2) = newRequestObjects qs L1 in (r # rs, L2))"

definition request_new :: "request list \<Rightarrow> rid option \<Rightarrow> loader \<Rightarrow> pid \<times> loader" where
  "request_new qs parent L = (let (rs, L1) = newRequestObjects qs L in request rs parent L1)"

text \<open>
  \<^verbatim>\<open>_open\<close>: the handler's \<^verbatim>\<open>open\<close>, which may call \<^verbatim>\<open>request\<close> with the request being opened
  as parent before it returns or throws.
\<close>

definition private_open :: "data \<Rightarrow> rid \<Rightarrow> loader \<Rightarrow> (err + resource option) \<times> loader" where
  "private_open d r L =
     (case handlers L (rtype (heap L r)) of
        None \<Rightarrow> (Inl TypeError, L)
      | Some h \<Rightarrow>
          (let res = h_open h d (heap L r);
               L1 = fire (CallOpen r) L;
               L2 = fold (\<lambda>batch M. snd (request_new batch (Some r) M)) (nested res) L1
           in (outcome res, L2)))"

text \<open>\<^verbatim>\<open>ResourceLoader.open\<close>: a request object of the given class, then the handler's \<^verbatim>\<open>open\<close>.\<close>

definition loader_open ::
  "rtype \<Rightarrow> cls option \<Rightarrow> data \<Rightarrow> loader \<Rightarrow> (err + resource option) \<times> loader" where
  "loader_open t T d L =
     (let (r, L1) = newRequestObject (ResourceRequest t T [] None None) L
      in private_open d r L1)"

section \<open>Callbacks and the event loop\<close>

fun data_of :: "pvalue \<Rightarrow> data" where
  "data_of (VData d) = d"
| "data_of _ = []"

fun arr_of :: "pvalue \<Rightarrow> resource option list" where
  "arr_of (VArr xs) = xs"
| "arr_of _ = []"

text \<open>
  One clause for each callback of the source. A \<^verbatim>\<open>then\<close> without a rejection callback
  (the second caller's promise in \<^verbatim>\<open>_request\<close>) does nothing on rejection, and an exception in
  its fulfilment callback is not passed to the caller's promise either.
\<close>

fun react :: "reaction \<Rightarrow> outcome \<Rightarrow> loader \<Rightarrow> loader" where
  "react (DedupThen r p) (Fulfilled v) L =
     (case postOpen (res_of v) r L of
        (Inr res', L1) \<Rightarrow> resolve p (VRes res') L1
      | (Inl e, L1) \<Rightarrow> L1)"
| "react (DedupThen r p) (Rejected e) L = L"
| "react (LoadThen r p0) (Fulfilled v) L =
     (case private_open (data_of v) r L of
        (Inl e, L1) \<Rightarrow> reject p0 e L1
      | (Inr None, L1) \<Rightarrow> resolve p0 (VRes None) L1
      | (Inr (Some x), L1) \<Rightarrow>
          (case postOpen (Some x) r L1 of
             (Inr res', L2) \<Rightarrow> resolve p0 (VRes res') L2
           | (Inl e, L2) \<Rightarrow> reject p0 e L2))"
| "react (LoadThen r p0) (Rejected e) L = reject p0 e (fire (EvError r e) L)"
| "react (AllElem A) (Fulfilled v) L =
     (if list_all (fulfilled L) (alls L A) then resolve A (VArr (map (value_of L) (alls L A))) L
      else L)"
| "react (AllElem A) (Rejected e) L = reject A e L"
| "react (TopThen agg rq) (Fulfilled v) L = check agg (arr_of v) rq L"
| "react (TopThen agg rq) (Rejected e) L = reject agg e L"
| "react (CheckThen agg resources rs) (Fulfilled v) L = check agg resources rs L"
| "react (CheckThen agg resources rs) (Rejected e) L = reject agg e L"

definition tick :: "loader \<Rightarrow> loader" where
  "tick L = (case queue L of [] \<Rightarrow> L | (rx, out) # rest \<Rightarrow> react rx out (L\<lparr>queue := rest\<rparr>))"

text \<open>Run queued callbacks until none is left, at most \<open>n\<close> of them.\<close>

fun run :: "nat \<Rightarrow> loader \<Rightarrow> loader" where
  "run 0 L = L"
| "run (Suc n) L = (if queue L = [] then L else run n (tick L))"

text \<open>Counting the calls of the handlers' \<^verbatim>\<open>load\<close> and \<^verbatim>\<open>clone\<close> in a trace.\<close>

fun is_load :: "event \<Rightarrow> bool" where
  "is_load (CallLoad r p) = True"
| "is_load _ = False"

fun is_clone :: "event \<Rightarrow> bool" where
  "is_clone (CallClone r) = True"
| "is_clone _ = False"

definition loads :: "loader \<Rightarrow> nat" where
  "loads L = length (filter is_load (trace L))"

definition clones :: "loader \<Rightarrow> nat" where
  "clones L = length (filter is_clone (trace L))"



section \<open>States used as examples\<close>

text \<open>Two identifiers registered against one hash, \<^verbatim>\<open>/a.png\<close> first.\<close>

definition registry_two :: loader where
  "registry_two = registerHash ''h1'' ''/b.png'' (registerHash ''h1'' ''/a.png'' ResourceLoader)"

text \<open>An identifier that has a hash, and a second hash without a canonical identifier.\<close>

definition registry_one :: loader where
  "registry_one = registerHash ''h1'' ''/a.png'' ResourceLoader"

text \<open>A request object of a type that has no handler.\<close>

definition no_handler_state :: loader where
  "no_handler_state =
     snd (newRequestObject (ResourceRequest ''image'' None ''/a.png'' None None) ResourceLoader)"

text \<open>
  A handler for images: \<^verbatim>\<open>open\<close> wraps the data into an \<^verbatim>\<open>Image\<close> and asks for nothing else,
  \<^verbatim>\<open>clone\<close> is the default of \<^verbatim>\<open>ResourceHandler\<close> and returns the resource it is given.
\<close>

definition imageHandler :: handler where
  "imageHandler =
     Handler (\<lambda>d q. OpenResult [] (Inr (Some (Resource [''Image''] d)))) (\<lambda>res q. res)"

definition imageRequest :: "ident \<Rightarrow> request" where
  "imageRequest i = ResourceRequest ''image'' (Some ''Image'') i None None"

text \<open>
  The loader of the spec's example: the image handler, and the hash \<^verbatim>\<open>h1\<close> registered for
  \<^verbatim>\<open>/a.png\<close> and then for \<^verbatim>\<open>/b.png\<close>.
\<close>

definition image_loader :: loader where
  "image_loader =
     registerHash ''h1'' ''/b.png'' (registerHash ''h1'' ''/a.png''
       (projr (registerHandler ''image'' imageHandler ResourceLoader)))"

text \<open>\<^verbatim>\<open>request([ImageRequest("/a.png"), ImageRequest("/b.png")])\<close> on that loader.\<close>

definition both_requested :: loader where
  "both_requested =
     snd (request_new [imageRequest ''/a.png'', imageRequest ''/b.png''] None image_loader)"

text \<open>
  \<^verbatim>\<open>request(ImageRequest("/a.png"))\<close> twice while the first is in flight; then the load
  fails and the queued callbacks run (\<open>load_failed\<close>). In \<open>first_loaded\<close> the load of the
  first request succeeds instead and the queued callbacks run.
\<close>

definition first_requested :: loader where
  "first_requested = snd (request_new [imageRequest ''/a.png''] None image_loader)"

definition second_requested :: loader where
  "second_requested = snd (request_new [imageRequest ''/a.png''] None first_requested)"

definition load_failed :: loader where
  "load_failed =
     tick (tick (tick (tick (load_settles 2 (Inl (Str ''404'')) second_requested))))"

definition first_loaded :: loader where
  "first_loaded = tick (tick (tick (load_settles 2 (Inr ''DATA'') first_requested)))"

text \<open>
  After the successful load, two new request objects for \<^verbatim>\<open>/a.png\<close>: number 1 expects an
  \<^verbatim>\<open>Image\<close>, number 2 expects a \<^verbatim>\<open>Pack\<close>.
\<close>

definition repeat_objects :: loader where
  "repeat_objects =
     snd (newRequestObject (ResourceRequest ''image'' (Some ''Pack'') ''/a.png'' None None)
       (snd (newRequestObject (imageRequest ''/a.png'') first_loaded)))"

text \<open>
  A handler for packs: \<^verbatim>\<open>open\<close> wraps the data into a \<^verbatim>\<open>Pack\<close> and, before it returns,
  requests the image \<^verbatim>\<open>/tex.png\<close> with the request being opened as parent.
\<close>

definition packHandler :: handler where
  "packHandler =
     Handler (\<lambda>d q. OpenResult [[imageRequest ''/tex.png'']] (Inr (Some (Resource [''Pack''] d))))
       (\<lambda>res q. res)"

definition packRequest :: "ident \<Rightarrow> request" where
  "packRequest i = ResourceRequest ''pack'' (Some ''Pack'') i None None"

text \<open>A loader with the two handlers and no hashes.\<close>

definition scene_loader :: loader where
  "scene_loader =
     projr (registerHandler ''pack'' packHandler
       (projr (registerHandler ''image'' imageHandler ResourceLoader)))"

text \<open>
  \<^verbatim>\<open>request(ImageRequest("/x.png"))\<close> is in flight when
  \<^verbatim>\<open>request([PackRequest("/scene.pack"), ImageRequest("/x.png")])\<close> is called; the second
  request of the batch is merged into the one in flight. Then the pack is loaded and opened,
  which requests the texture (\<open>pack_opened\<close>); the load of \<^verbatim>\<open>/x.png\<close> fails
  (\<open>image_failed\<close>); the load of the texture fails (\<open>texture_failed\<close>). Each time the queued
  callbacks run until none is left.
\<close>

definition image_requested :: loader where
  "image_requested = snd (request_new [imageRequest ''/x.png''] None scene_loader)"

definition batch_requested :: loader where
  "batch_requested =
     snd (request_new [packRequest ''/scene.pack'', imageRequest ''/x.png''] None image_requested)"

definition pack_opened :: loader where
  "pack_opened = tick (tick (load_settles 6 (Inr ''PACK'') batch_requested))"

definition image_failed :: loader where
  "image_failed = tick (tick (tick (tick (load_settles 2 (Inl (Str ''404'')) pack_opened))))"

definition texture_failed :: loader where
  "texture_failed = tick (tick (tick (load_settles 11 (Inl (Str ''500'')) image_failed)))"

text \<open>
  A registry in which the canonical identifier of \<^verbatim>\<open>/b.png\<close> has no hash: \<^verbatim>\<open>/a.png\<close> is
  registered with \<^verbatim>\<open>h0\<close> and then with \<^verbatim>\<open>h1\<close> (which makes it canonical for both and keeps
  its first hash), then unregistered, and \<^verbatim>\<open>/b.png\<close> is registered with \<^verbatim>\<open>h1\<close>.
\<close>

definition orphan_loader :: loader where
  "orphan_loader =
     registerHash ''h1'' ''/b.png'' (unregisterHash ''/a.png''
       (registerHash ''h1'' ''/a.png'' (registerHash ''h0'' ''/a.png''
         (projr (registerHandler ''image'' imageHandler ResourceLoader)))))"

text \<open>
  A handler whose \<^verbatim>\<open>open\<close> requests two images, each with its own call of \<^verbatim>\<open>request\<close>, and
  a loader with this handler and the image handler. Three requests are made, one call
  each; the two images are loaded, and the callbacks run (\<open>two_loaded\<close>); then the load of
  the atlas is fulfilled and its callback runs (\<open>atlas_opened\<close>).
\<close>

definition atlasHandler :: handler where
  "atlasHandler =
     Handler (\<lambda>d q. OpenResult [[imageRequest ''/t1.png''], [imageRequest ''/t2.png'']]
                (Inr (Some (Resource [''Atlas''] d))))
       (\<lambda>res q. res)"


definition atlas_loader :: loader where
  "atlas_loader =
     projr (registerHandler ''atlas'' atlasHandler
       (projr (registerHandler ''image'' imageHandler ResourceLoader)))"




section \<open>A request and its repeats\<close>



section \<open>Auxiliary notions\<close>

text \<open>The identifier that \<^verbatim>\<open>_makeCanonical\<close> assigns to a request with identifier \<open>i\<close>.\<close>

definition canonical_id :: "loader \<Rightarrow> ident \<Rightarrow> ident" where
  "canonical_id L i =
     (case getHash L i of
        None \<Rightarrow> i
      | Some h \<Rightarrow>
          (case canonicals L h of
             None \<Rightarrow> i
           | Some c \<Rightarrow> if h \<noteq> [] \<and> c \<noteq> [] then c else i))"



text \<open>
  What dispatching requests leaves as it is: the handlers, the type of the request objects
  that exist and the state of the promises that exist; counters and allocation only grow.
\<close>

definition extends :: "loader \<Rightarrow> loader \<Rightarrow> bool" where
  "extends L L' \<longleftrightarrow>
     handlers L' = handlers L \<and> nextRequest L \<le> nextRequest L' \<and> nextPromise L \<le> nextPromise L'
     \<and> loaded L \<le> loaded L'
     \<and> (\<forall>r<nextRequest L. rtype (heap L' r) = rtype (heap L r))
     \<and> (\<forall>p<nextPromise L. settled (store L' p) = settled (store L p))"

section \<open>The hash registry\<close>

lemma registerHash_canonicals_keep:
  "canonicals L h = Some a \<Longrightarrow> a \<noteq> [] \<Longrightarrow> canonicals (registerHash g i L) h = Some a"
  by (auto simp: registerHash_def Let_def)

lemma registerHash_hashes_keep:
  "hashes L i = Some g \<Longrightarrow> g \<noteq> [] \<Longrightarrow> hashes (registerHash h j L) i = Some g"
  by (auto simp: registerHash_def Let_def)

lemma registerHashes_canonicals_keep:
  "canonicals L h = Some a \<Longrightarrow> a \<noteq> [] \<Longrightarrow> canonicals (registerHashes cs L) h = Some a"
proof (induction cs arbitrary: L)
  case Nil
  then show ?case by simp
next
  case (Cons c cs)
  obtain g i where c: "c = (g, i)" by (cases c)
  from Cons.prems have "canonicals (registerHash g i L) h = Some a"
    by (rule registerHash_canonicals_keep)
  with Cons.IH Cons.prems(2) c show ?case by simp
qed

lemma registerHashes_hashes_keep:
  "hashes L i = Some g \<Longrightarrow> g \<noteq> [] \<Longrightarrow> hashes (registerHashes cs L) i = Some g"
proof (induction cs arbitrary: L)
  case Nil
  then show ?case by simp
next
  case (Cons c cs)
  obtain h j where c: "c = (h, j)" by (cases c)
  from Cons.prems have "hashes (registerHash h j L) i = Some g"
    by (rule registerHash_hashes_keep)
  with Cons.IH Cons.prems(2) c show ?case by simp
qed

lemma registerHash_first:
  "\<not> truthy (canonicals L h) \<Longrightarrow> canonicals (registerHash h a L) h = Some a"
  by (auto simp: registerHash_def Let_def)

lemma registerHash_idem: "registerHash h i (registerHash h i L) = registerHash h i L"
  by (cases "hashes L i"; cases "canonicals L h"; cases "h = []"; cases "i = []")
     (auto simp: registerHash_def Let_def)

text \<open>
  Claim C6. Identifiers and hashes are non-empty strings (an empty string stored in a table
  reads as no entry in the guards \<^verbatim>\<open>if (!this._hashes[identifier])\<close> and
  \<^verbatim>\<open>if (!this._canonicals[hash])\<close>). When \<open>h\<close> has no canonical identifier, the identifier \<open>a\<close>
  registered against it is canonical for \<open>h\<close> after any sequence \<open>cs\<close> of later
  \<^verbatim>\<open>registerHash\<close> calls; an identifier's hash \<open>g\<close> is never replaced by later calls; and
  calling \<^verbatim>\<open>registerHash\<close> twice with the same arguments is the same as calling it once.
\<close>

theorem registerHash_first_writer_wins:
  assumes "\<not> truthy (canonicals L h)" and "a \<noteq> []"
    and "hashes L i = Some g" and "g \<noteq> []"
  shows "canonicals (registerHashes cs (registerHash h a L)) h = Some a
       \<and> hashes (registerHashes cs L) i = Some g
       \<and> registerHash h' i' (registerHash h' i' L) = registerHash h' i' L"
  using assms registerHash_first registerHashes_canonicals_keep registerHashes_hashes_keep
    registerHash_idem by simp

theorem registerHash_first_writer_wins_witness:
  "\<not> truthy (canonicals registry_one ''h2'') \<and> ''/c.png'' \<noteq> []
   \<and> hashes registry_one ''/a.png'' = Some ''h1'' \<and> ''h1'' \<noteq> []
   \<and> canonicals (registerHashes [(''h2'', ''/d.png''), (''h9'', ''/a.png'')]
        (registerHash ''h2'' ''/c.png'' registry_one)) ''h2'' = Some ''/c.png''
   \<and> hashes (registerHashes [(''h2'', ''/d.png''), (''h9'', ''/a.png'')] registry_one) ''/a.png''
        = Some ''h1''
   \<and> registerHash ''h2'' ''/d.png'' (registerHash ''h2'' ''/d.png'' registry_one)
        = registerHash ''h2'' ''/d.png'' registry_one"
proof -
  have 1: "\<not> truthy (canonicals registry_one ''h2'')"
    by (simp add: registry_one_def registerHash_def ResourceLoader_def)
  have 2: "''/c.png'' \<noteq> []" by simp
  have 3: "hashes registry_one ''/a.png'' = Some ''h1''"
    by (simp add: registry_one_def registerHash_def ResourceLoader_def)
  have 4: "''h1'' \<noteq> []" by simp
  show ?thesis
    using 1 2 3 4
      registerHash_first_writer_wins [OF 1 2 3 4,
        of "[(''h2'', ''/d.png''), (''h9'', ''/a.png'')]" "''h2''" "''/d.png''"]
    by blast
qed

text \<open>
  Claim C9. \<^verbatim>\<open>registerHash(h, i)\<close> writes its two tables independently: when \<open>i\<close> already
  has a hash \<open>g\<close> other than \<open>h\<close>, and \<open>h\<close> has no canonical identifier, the call leaves
  \<open>i\<close> registered with \<open>g\<close> and still makes \<open>i\<close> the canonical identifier of \<open>h\<close>.
\<close>

theorem registerHash_independent:
  assumes "hashes L i = Some g" and "g \<noteq> []" and "g \<noteq> h" and "\<not> truthy (canonicals L h)"
  shows "hashes (registerHash h i L) i = Some g \<and> canonicals (registerHash h i L) h = Some i"
  using assms by (auto simp: registerHash_def Let_def)

theorem registerHash_independent_witness:
  "hashes registry_one ''/a.png'' = Some ''h1'' \<and> ''h1'' \<noteq> [] \<and> ''h1'' \<noteq> ''h2''
   \<and> \<not> truthy (canonicals registry_one ''h2'')
   \<and> hashes (registerHash ''h2'' ''/a.png'' registry_one) ''/a.png'' = Some ''h1''
   \<and> canonicals (registerHash ''h2'' ''/a.png'' registry_one) ''h2'' = Some ''/a.png''"
proof -
  have 1: "hashes registry_one ''/a.png'' = Some ''h1''"
    by (simp add: registry_one_def registerHash_def ResourceLoader_def)
  have 2: "''h1'' \<noteq> []" by simp
  have 3: "''h1'' \<noteq> ''h2''" by simp
  have 4: "\<not> truthy (canonicals registry_one ''h2'')"
    by (simp add: registry_one_def registerHash_def ResourceLoader_def)
  show ?thesis using 1 2 3 4 registerHash_independent [OF 1 2 3 4] by blast
qed

text \<open>
  Claim C4, as the code has it. For an identifier \<open>i\<close> registered with a non-empty hash \<open>h\<close>,
  \<^verbatim>\<open>unregisterHash(i)\<close> removes the entry of \<open>i\<close> and removes the canonical identifier of
  \<open>h\<close> whichever identifier that is; no other entry of either table changes.
\<close>

theorem unregisterHash_removes_both:
  assumes "getHash L i = Some h" and "h \<noteq> []"
  shows "hashes (unregisterHash i L) = (hashes L)(i := None)
       \<and> canonicals (unregisterHash i L) = (canonicals L)(h := None)"
  using assms by (simp add: unregisterHash_def)

theorem unregisterHash_removes_both_witness:
  "getHash registry_two ''/b.png'' = Some ''h1'' \<and> ''h1'' \<noteq> []
   \<and> hashes (unregisterHash ''/b.png'' registry_two) = (hashes registry_two)(''/b.png'' := None)
   \<and> canonicals (unregisterHash ''/b.png'' registry_two)
        = (canonicals registry_two)(''h1'' := None)"
proof -
  have h: "getHash registry_two ''/b.png'' = Some ''h1''"
    by (simp add: registry_two_def registerHash_def ResourceLoader_def getHash_def)
  have n: "''h1'' \<noteq> []" by simp
  show ?thesis using h n unregisterHash_removes_both [OF h n] by blast
qed

text \<open>
  Claim C4 as stated fails: \<^verbatim>\<open>/b.png\<close> is registered with \<^verbatim>\<open>h1\<close>, the canonical identifier of
  \<^verbatim>\<open>h1\<close> is the other identifier \<^verbatim>\<open>/a.png\<close>, and \<^verbatim>\<open>unregisterHash("/b.png")\<close> removes it.
\<close>

theorem unregisterHash_counterexample:
  "getHash registry_two ''/b.png'' = Some ''h1''
   \<and> canonicals registry_two ''h1'' = Some ''/a.png''
   \<and> canonicals (unregisterHash ''/b.png'' registry_two) ''h1'' \<noteq> canonicals registry_two ''h1''"
  by (simp add: registry_two_def registerHash_def ResourceLoader_def getHash_def
      unregisterHash_def)

section \<open>Opening without a handler\<close>

text \<open>
  Claim C10. For a type \<open>t\<close> without a handler, \<^verbatim>\<open>ResourceLoader.open\<close> fails with the
  \<^verbatim>\<open>TypeError\<close> of reading \<^verbatim>\<open>open\<close> from \<^verbatim>\<open>undefined\<close>, whereas \<^verbatim>\<open>_request\<close>, dispatching a
  request object of that type that has no promise yet, returns a promise rejected with the
  message \<^verbatim>\<open>Missing handler for type: t\<close>.
\<close>

theorem open_missing_handler:
  assumes "handlers L t = None" and "rtype (heap L r) = t" and "promises (heap L r) = []"
  shows "fst (loader_open t T d L) = Inl TypeError
       \<and> settled (store (snd (private_request r L)) (fst (private_request r L)))
           = Some (Rejected (Str (''Missing handler for type: '' @ t)))"
  using assms
  by (simp add: loader_open_def newRequestObject_def private_open_def ResourceRequest_def
      private_request_def Let_def newPromise_def fire_def update_request_def primary_executor_def
      reject_def settle_def split: prod.splits)

theorem open_missing_handler_witness:
  "handlers no_handler_state ''image'' = None \<and> rtype (heap no_handler_state 0) = ''image''
   \<and> promises (heap no_handler_state 0) = []
   \<and> fst (loader_open ''image'' None ''data'' no_handler_state) = Inl TypeError
   \<and> settled (store (snd (private_request 0 no_handler_state))
        (fst (private_request 0 no_handler_state)))
        = Some (Rejected (Str (''Missing handler for type: '' @ ''image'')))"
proof -
  have 1: "handlers no_handler_state ''image'' = None"
    by (simp add: no_handler_state_def newRequestObject_def ResourceLoader_def)
  have 2: "rtype (heap no_handler_state 0) = ''image''"
    by (simp add: no_handler_state_def newRequestObject_def ResourceLoader_def
        ResourceRequest_def)
  have 3: "promises (heap no_handler_state 0) = []"
    by (simp add: no_handler_state_def newRequestObject_def ResourceLoader_def
        ResourceRequest_def)
  show ?thesis using 1 2 3 open_missing_handler [OF 1 2 3, of None "''data''"] by blast
qed

section \<open>Dispatching requests\<close>

text \<open>
  What one round of the loop of \<^verbatim>\<open>request\<close> does to the loader, on each path of
  \<^verbatim>\<open>_findExistingRequest\<close> and \<^verbatim>\<open>_request\<close>: a new request that is loaded, one whose cached
  resource has the wrong type, one answered from the cache, and one merged into a request
  in flight whose primary promise is pending or settled.
\<close>

lemma makeCanonical_eq:
  "makeCanonical r L
     = update_request r (\<lambda>q. q\<lparr>canonical := canonical_id L (identifier_of q)\<rparr>) L"
  by (simp add: makeCanonical_def canonical_id_def Let_def update_request_def
      split: option.splits)

lemma getFromCache_frame [simp]:
  "getFromCache c (handlers_update f1 L) = getFromCache c L"
  "getFromCache c (requests_update f2 L) = getFromCache c L"
  "getFromCache c (requested_update f3 L) = getFromCache c L"
  "getFromCache c (loaded_update f4 L) = getFromCache c L"
  "getFromCache c (sequence_update f5 L) = getFromCache c L"
  "getFromCache c (heap_update f6 L) = getFromCache c L"
  "getFromCache c (nextRequest_update f7 L) = getFromCache c L"
  "getFromCache c (store_update f8 L) = getFromCache c L"
  "getFromCache c (nextPromise_update f9 L) = getFromCache c L"
  "getFromCache c (alls_update f10 L) = getFromCache c L"
  "getFromCache c (queue_update f11 L) = getFromCache c L"
  "getFromCache c (trace_update f12 L) = getFromCache c L"
  by (simp_all add: getFromCache_def getHash_def split: option.splits)

lemma canonical_id_frame [simp]:
  "canonical_id (handlers_update f1 L) i = canonical_id L i"
  "canonical_id (requests_update f2 L) i = canonical_id L i"
  "canonical_id (requested_update f3 L) i = canonical_id L i"
  "canonical_id (loaded_update f4 L) i = canonical_id L i"
  "canonical_id (sequence_update f5 L) i = canonical_id L i"
  "canonical_id (heap_update f6 L) i = canonical_id L i"
  "canonical_id (nextRequest_update f7 L) i = canonical_id L i"
  "canonical_id (store_update f8 L) i = canonical_id L i"
  "canonical_id (nextPromise_update f9 L) i = canonical_id L i"
  "canonical_id (alls_update f10 L) i = canonical_id L i"
  "canonical_id (queue_update f11 L) i = canonical_id L i"
  "canonical_id (trace_update f12 L) i = canonical_id L i"
  "canonical_id (cache_update f13 L) i = canonical_id L i"
  by (simp_all add: canonical_id_def getHash_def split: option.splits)

lemma addToCache_same: "getFromCache c L = Some x \<Longrightarrow> addToCache c (Some x) L = L"
  by (simp add: getFromCache_def addToCache_def getHash_def map_upd_triv
      split: option.splits if_splits)

lemmas dispatch_defs = makeCanonical_eq private_request_def primary_executor_def Let_def
  fire_def newPromise_def update_request_def then_on_def postOpen_def addToCache_same
  resolve_def reject_def settle_def

lemma iter_load:
  assumes "findExistingRequest r L = r" and "promises (heap L r) = []"
    and "seq (heap L r) = None" and "handlers L (rtype (heap L r)) = Some hdl"
    and "getFromCache (canonical_id L (identifier_of (heap L r))) L = None"
  shows "request_loop (r # rest) None ps rq L =
     request_loop rest None (ps @ [nextPromise L]) (rq @ [r])
          (L\<lparr>sequence := Suc (sequence L),
               nextPromise := Suc (Suc (nextPromise L)),
               trace :=
                 trace L @ [EvRequest r, CallLoad r (Suc (nextPromise L))],
               store :=
                 (store L)
                 (nextPromise L := Promise None [],
                    Suc (nextPromise L) :=
                      Promise None [LoadThen r (nextPromise L)]),
               heap :=
                 (heap L)
                 (r := heap L r
                    \<lparr>canonical := canonical_id L (identifier_of (heap L r)),
                       seq := Some (sequence L),
                       promises := [nextPromise L]\<rparr>),
               requests :=
                 (requests L)
                 (canonical_id L (identifier_of (heap L r)) \<mapsto> r),
               requested := Suc (requested L)\<rparr>)"
  using assms by (simp add: dispatch_defs)

lemma iter_mismatch:
  assumes "findExistingRequest r L = r" and "promises (heap L r) = []"
    and "seq (heap L r) = None" and "handlers L (rtype (heap L r)) = Some hdl"
    and "getFromCache (canonical_id L (identifier_of (heap L r))) L = Some x"
    and "Type (heap L r) = Some k" and "k \<notin> set (classes x)"
  shows "request_loop (r # rest) None ps rq L =
     request_loop rest None (ps @ [nextPromise L]) (rq @ [r])
          (L\<lparr>sequence := Suc (sequence L),
               nextPromise := Suc (Suc (nextPromise L)),
               trace :=
                 trace L @ [EvRequest r, CallLoad r (Suc (nextPromise L))],
               store :=
                 (store L)
                 (nextPromise L := Promise None [],
                    Suc (nextPromise L) :=
                      Promise None [LoadThen r (nextPromise L)]),
               heap :=
                 (heap L)
                 (r := heap L r
                    \<lparr>canonical := canonical_id L (identifier_of (heap L r)),
                       seq := Some (sequence L),
                       promises := [nextPromise L]\<rparr>),
               requests :=
                 (requests L)
                 (canonical_id L (identifier_of (heap L r)) \<mapsto> r),
               requested := Suc (requested L)\<rparr>)"
  using assms by (simp add: dispatch_defs instanceOf_def)


lemma iter_merge_pending:
  assumes "findExistingRequest r L = e" and "e \<noteq> r" and "promises (heap L e) = p0 # pr"
    and "seq (heap L e) = Some n" and "p0 \<noteq> nextPromise L" and "settled (store L p0) = None"
  shows "request_loop (r # rest) None ps rq L =
     request_loop rest None (ps @ [nextPromise L]) (rq @ [e])
          (L\<lparr>trace := trace L @ [EvRequest e],
               nextPromise := Suc (nextPromise L),
               store :=
                 (store L)
                 (nextPromise L := Promise None [],
                  p0 := Promise None (reactions (store L p0) @ [DedupThen e (nextPromise L)])),
               heap :=
                 (heap L)
                 (e := heap L e
                    \<lparr>rdata := rdata (heap L r),
                       canonical := canonical_id L (identifier_of (heap L e)),
                       promises := p0 # pr @ [nextPromise L]\<rparr>),
               requests :=
                 (requests L)
                 (canonical_id L (identifier_of (heap L e)) \<mapsto> e),
               requested := Suc (requested L)\<rparr>)"
  using assms by (simp add: dispatch_defs)


lemma then_on_trace [simp]: "trace (then_on p rx L) = trace L"
  by (simp add: then_on_def split: option.splits)

lemma all_subscribe_trace [simp]: "trace (all_subscribe A ps L) = trace L"
  by (induction ps arbitrary: L) simp_all

lemma promise_all_trace [simp]: "trace (snd (promise_all ps L)) = trace L"
  by (simp add: promise_all_def newPromise_def resolve_def settle_def Let_def
      split: option.splits)

lemma request_trace:
  "trace (snd (request rs parent L))
     = trace (snd (snd (request_loop rs parent [] [] (snd (newPromise L)))))"
  by (simp add: request_def Let_def split_beta)

lemma iter_load':
  assumes "findExistingRequest r L = r" and "promises (heap L r) = []"
    and "seq (heap L r) = None" and "handlers L (rtype (heap L r)) \<noteq> None"
    and "getFromCache (canonical_id L (identifier_of (heap L r))) L = None"
  shows "request_loop (r # rest) None ps rq L =
     request_loop rest None (ps @ [nextPromise L]) (rq @ [r])
          (L\<lparr>sequence := Suc (sequence L),
               nextPromise := Suc (Suc (nextPromise L)),
               trace :=
                 trace L @ [EvRequest r, CallLoad r (Suc (nextPromise L))],
               store :=
                 (store L)
                 (nextPromise L := Promise None [],
                    Suc (nextPromise L) :=
                      Promise None [LoadThen r (nextPromise L)]),
               heap :=
                 (heap L)
                 (r := heap L r
                    \<lparr>canonical := canonical_id L (identifier_of (heap L r)),
                       seq := Some (sequence L),
                       promises := [nextPromise L]\<rparr>),
               requests :=
                 (requests L)
                 (canonical_id L (identifier_of (heap L r)) \<mapsto> r),
               requested := Suc (requested L)\<rparr>)"
proof -
  from assms(4) obtain hdl where "handlers L (rtype (heap L r)) = Some hdl" by auto
  from iter_load [OF assms(1-3) this assms(5)] show ?thesis .
qed

lemma two_identifiers_two_loads:
  assumes "a \<noteq> b" and "canonical_id L a = c" and "canonical_id L b = c"
    and "getFromCache c L = None" and "handlers L t \<noteq> None"
    and "requests L a = None" and "requests L b = None" and "b \<noteq> c"
  shows "trace (snd (request_new [ResourceRequest t T a d None, ResourceRequest t T b d' None]
                 None L))
     = trace L @ [EvRequest (nextRequest L),
                  CallLoad (nextRequest L) (Suc (Suc (nextPromise L))),
                  EvRequest (Suc (nextRequest L)),
                  CallLoad (Suc (nextRequest L)) (Suc (Suc (Suc (Suc (nextPromise L)))))]"
  using assms
  by (simp add: request_new_def newRequestObject_def request_trace newPromise_def
      iter_load' findExistingRequest_def ResourceRequest_def
      del: request_loop.simps(2))

lemmas req_defs = request_new_def newRequestObject_def request_def newPromise_def Let_def
  findExistingRequest_def ResourceRequest_def promise_all_def then_on_def

lemma request_new_load:
  assumes "requests L i = None" and "handlers L t \<noteq> None"
    and "getFromCache (canonical_id L i) L = None"
  shows "request_new [ResourceRequest t T i d None] None L =
     (nextPromise L,
          L\<lparr>nextRequest := Suc (nextRequest L),
              sequence := Suc (sequence L),
              trace :=
                trace L @
                [EvRequest (nextRequest L),
                 CallLoad (nextRequest L) (Suc (Suc (nextPromise L)))],
              heap :=
                (heap L)
                (nextRequest L :=
                   \<lparr>seq = Some (sequence L), canonical = canonical_id L i,
                      promises = [Suc (nextPromise L)], children = [],
                      rdata = d, result = None, identifier_of = i,
                      rtype = t, Type = T\<rparr>),
              requests := (requests L)(canonical_id L i \<mapsto> nextRequest L),
              requested := Suc (requested L),
              nextPromise := Suc (Suc (Suc (Suc (nextPromise L)))),
              alls :=
                (alls L)
                (Suc (Suc (Suc (nextPromise L))) := [Suc (nextPromise L)]),
              store :=
                (store L)
                (nextPromise L := Promise None [],
                   Suc (Suc (nextPromise L)) :=
                     Promise None
                      [LoadThen (nextRequest L) (Suc (nextPromise L))],
                   Suc (nextPromise L) :=
                     Promise None
                      [AllElem (Suc (Suc (Suc (nextPromise L))))],
                   Suc (Suc (Suc (nextPromise L))) :=
                     Promise None
                      [TopThen (nextPromise L) [nextRequest L]])\<rparr>)"
  using assms by (simp add: req_defs iter_load' del: request_loop.simps(2))


lemma request_new_merge_pending:
  assumes "requests L i = Some e" and "rtype (heap L e) = t" and "result (heap L e) = None"
    and "promises (heap L e) = p0 # pr" and "seq (heap L e) = Some n"
    and "p0 < nextPromise L" and "settled (store L p0) = None" and "e < nextRequest L"
  shows "request_new [ResourceRequest t T i d None] None L =
     (nextPromise L,
          L\<lparr>nextRequest := Suc (nextRequest L),
              trace := trace L @ [EvRequest e],
              heap :=
                (heap L)
                (nextRequest L :=
                   \<lparr>seq = None, canonical = i, promises = [], children = [],
                      rdata = d, result = None, identifier_of = i,
                      rtype = t, Type = T\<rparr>,
                   e := heap L e
                     \<lparr>rdata := d,
                        canonical :=
                          canonical_id L (identifier_of (heap L e)),
                        promises := p0 # pr @ [Suc (nextPromise L)]\<rparr>),
              requests :=
                (requests L)(canonical_id L (identifier_of (heap L e)) \<mapsto> e),
              requested := Suc (requested L),
              nextPromise := Suc (Suc (Suc (nextPromise L))),
              alls :=
                (alls L)
                (Suc (Suc (nextPromise L)) := [Suc (nextPromise L)]),
              store :=
                (store L)
                (nextPromise L := Promise None [],
                   p0 :=
                     Promise None
                      (reactions (store L p0) @
                       [DedupThen e (Suc (nextPromise L))]),
                   Suc (nextPromise L) :=
                     Promise None [AllElem (Suc (Suc (nextPromise L)))],
                   Suc (Suc (nextPromise L)) :=
                     Promise None [TopThen (nextPromise L) [e]])\<rparr>)"
  using assms by (simp add: req_defs iter_merge_pending del: request_loop.simps(2))


lemma iter_load_child:
  assumes "findExistingRequest r L = r" and "promises (heap L r) = []"
    and "seq (heap L r) = None" and "handlers L (rtype (heap L r)) \<noteq> None"
    and "getFromCache (canonical_id L (identifier_of (heap L r))) L = None"
    and "par \<noteq> r"
  shows "request_loop (r # rest) (Some par) ps rq L =
     request_loop rest (Some par) (ps @ [nextPromise L]) (rq @ [r])
       (L\<lparr>sequence := Suc (sequence L),
            nextPromise := Suc (Suc (nextPromise L)),
            trace := trace L @ [EvRequest r, CallLoad r (Suc (nextPromise L))],
            store :=
              (store L)
              (nextPromise L := Promise None [],
               Suc (nextPromise L) := Promise None [LoadThen r (nextPromise L)]),
            requests := (requests L)(canonical_id L (identifier_of (heap L r)) \<mapsto> r),
            requested := Suc (requested L),
            heap :=
              (heap L)
              (r := heap L r
                 \<lparr>canonical := canonical_id L (identifier_of (heap L r)),
                    seq := Some (sequence L), promises := [nextPromise L]\<rparr>,
               par := heap L par\<lparr>children := children (heap L par) @ [r]\<rparr>)\<rparr>)"
proof -
  from assms(4) obtain hdl where "handlers L (rtype (heap L r)) = Some hdl" by auto
  with assms show ?thesis by (simp add: dispatch_defs)
qed

lemma request_new_load_child:
  assumes "requests L i = None" and "handlers L t \<noteq> None"
    and "getFromCache (canonical_id L i) L = None" and "par < nextRequest L"
  shows "request_new [ResourceRequest t T i d None] (Some par) L =
     (nextPromise L,
          L\<lparr>nextRequest := Suc (nextRequest L),
              sequence := Suc (sequence L),
              trace :=
                trace L @
                [EvRequest (nextRequest L),
                 CallLoad (nextRequest L) (Suc (Suc (nextPromise L)))],
              heap :=
                (heap L)
                (nextRequest L :=
                   \<lparr>seq = Some (sequence L), canonical = canonical_id L i,
                      promises = [Suc (nextPromise L)], children = [],
                      rdata = d, result = None, identifier_of = i,
                      rtype = t, Type = T\<rparr>,
                 par := heap L par\<lparr>children := children (heap L par) @ [nextRequest L]\<rparr>),
              requests := (requests L)(canonical_id L i \<mapsto> nextRequest L),
              requested := Suc (requested L),
              nextPromise := Suc (Suc (Suc (Suc (nextPromise L)))),
              alls :=
                (alls L)
                (Suc (Suc (Suc (nextPromise L))) := [Suc (nextPromise L)]),
              store :=
                (store L)
                (nextPromise L := Promise None [],
                   Suc (Suc (nextPromise L)) :=
                     Promise None
                      [LoadThen (nextRequest L) (Suc (nextPromise L))],
                   Suc (nextPromise L) :=
                     Promise None
                      [AllElem (Suc (Suc (Suc (nextPromise L))))],
                   Suc (Suc (Suc (nextPromise L))) :=
                     Promise None
                      [TopThen (nextPromise L) [nextRequest L]])\<rparr>)"
  using assms by (simp add: req_defs iter_load_child del: request_loop.simps(2))

lemma ResourceRequest_fields [simp]:
  "seq (ResourceRequest t T i d res) = None"
  "canonical (ResourceRequest t T i d res) = i"
  "promises (ResourceRequest t T i d res) = []"
  "children (ResourceRequest t T i d res) = []"
  "rdata (ResourceRequest t T i d res) = d"
  "result (ResourceRequest t T i d res) = res"
  "identifier_of (ResourceRequest t T i d res) = i"
  "rtype (ResourceRequest t T i d res) = t"
  "Type (ResourceRequest t T i d res) = T"
  by (simp_all add: ResourceRequest_def)

lemma image_loader_fields [simp]:
  "handlers image_loader = [''image'' \<mapsto> imageHandler]"
  "requests image_loader = Map.empty"
  "cache image_loader = Map.empty"
  "hashes image_loader = [''/a.png'' \<mapsto> ''h1'', ''/b.png'' \<mapsto> ''h1'']"
  "canonicals image_loader = [''h1'' \<mapsto> ''/a.png'']"
  "requested image_loader = 0"
  "loaded image_loader = 0"
  "sequence image_loader = 0"
  "nextRequest image_loader = 0"
  "nextPromise image_loader = 0"
  "store image_loader = (\<lambda>_. Promise None [])"
  "alls image_loader = (\<lambda>_. [])"
  "queue image_loader = []"
  "trace image_loader = []"
  "heap image_loader = (\<lambda>_. ResourceRequest [] None [] None None)"
  by (simp_all add: image_loader_def registerHash_def registerHandler_def ResourceLoader_def)

lemma image_loader_canonical [simp]:
  "canonical_id image_loader ''/a.png'' = ''/a.png''"
  "canonical_id image_loader ''/b.png'' = ''/a.png''"
  "getFromCache i image_loader = None"
  by (simp_all add: canonical_id_def getHash_def getFromCache_def split: option.splits)

lemma scene_loader_fields [simp]:
  "handlers scene_loader = [''image'' \<mapsto> imageHandler, ''pack'' \<mapsto> packHandler]"
  "requests scene_loader = Map.empty"
  "cache scene_loader = Map.empty"
  "hashes scene_loader = Map.empty"
  "canonicals scene_loader = Map.empty"
  "requested scene_loader = 0"
  "loaded scene_loader = 0"
  "sequence scene_loader = 0"
  "nextRequest scene_loader = 0"
  "nextPromise scene_loader = 0"
  "store scene_loader = (\<lambda>_. Promise None [])"
  "alls scene_loader = (\<lambda>_. [])"
  "queue scene_loader = []"
  "trace scene_loader = []"
  "heap scene_loader = (\<lambda>_. ResourceRequest [] None [] None None)"
  by (simp_all add: scene_loader_def registerHandler_def ResourceLoader_def)

lemma scene_loader_canonical [simp]:
  "canonical_id scene_loader i = i"
  "getFromCache i scene_loader = None"
  by (simp_all add: canonical_id_def getHash_def getFromCache_def split: option.splits)

lemma orphan_loader_fields [simp]:
  "handlers orphan_loader = [''image'' \<mapsto> imageHandler]"
  "requests orphan_loader = Map.empty"
  "cache orphan_loader = Map.empty"
  "hashes orphan_loader = [''/b.png'' \<mapsto> ''h1'']"
  "canonicals orphan_loader = [''h1'' \<mapsto> ''/a.png'']"
  "requested orphan_loader = 0"
  "loaded orphan_loader = 0"
  "sequence orphan_loader = 0"
  "nextRequest orphan_loader = 0"
  "nextPromise orphan_loader = 0"
  "store orphan_loader = (\<lambda>_. Promise None [])"
  "alls orphan_loader = (\<lambda>_. [])"
  "queue orphan_loader = []"
  "trace orphan_loader = []"
  "heap orphan_loader = (\<lambda>_. ResourceRequest [] None [] None None)"
  by (simp_all add: orphan_loader_def registerHash_def unregisterHash_def getHash_def
      registerHandler_def ResourceLoader_def fun_eq_iff)

lemma orphan_loader_canonical [simp]:
  "canonical_id orphan_loader ''/b.png'' = ''/a.png''"
  "getFromCache i orphan_loader = None"
  by (simp_all add: canonical_id_def getHash_def getFromCache_def split: option.splits)

lemmas tick_defs = load_settles_def resolve_def reject_def settle_def tick_def fire_def
      private_open_def postOpen_def addToCache_def getHash_def fulfilled_def value_of_def
      check_def Let_def

lemma atlas_loader_fields [simp]:
  "handlers atlas_loader = [''image'' \<mapsto> imageHandler, ''atlas'' \<mapsto> atlasHandler]"
  "requests atlas_loader = Map.empty"
  "cache atlas_loader = Map.empty"
  "hashes atlas_loader = Map.empty"
  "canonicals atlas_loader = Map.empty"
  "requested atlas_loader = 0"
  "loaded atlas_loader = 0"
  "sequence atlas_loader = 0"
  "nextRequest atlas_loader = 0"
  "nextPromise atlas_loader = 0"
  "store atlas_loader = (\<lambda>_. Promise None [])"
  "alls atlas_loader = (\<lambda>_. [])"
  "queue atlas_loader = []"
  "trace atlas_loader = []"
  "heap atlas_loader = (\<lambda>_. ResourceRequest [] None [] None None)"
  by (simp_all add: atlas_loader_def registerHandler_def ResourceLoader_def)

lemma atlas_loader_canonical [simp]:
  "canonical_id atlas_loader i = i"
  "getFromCache i atlas_loader = None"
  by (simp_all add: canonical_id_def getHash_def getFromCache_def split: option.splits)

lemma first_loaded_eq:
  "first_loaded =
     image_loader
     \<lparr>nextRequest := Suc 0, sequence := Suc 0,
        heap :=
          (\<lambda>_. ResourceRequest [] None [] None None)
          (0 := \<lparr>seq = Some 0, canonical = ''/a.png'', promises = [Suc 0],
                   children = [], rdata = None, result = None,
                   identifier_of = ''/a.png'', rtype = ''image'',
                   Type = Some ''Image''\<rparr>),
        requested := Suc 0, nextPromise := Suc (Suc (Suc (Suc 0))),
        alls := (\<lambda>_. [])(Suc (Suc (Suc 0)) := [Suc 0]),
        cache := [''h1'' \<mapsto> Resource [''Image''] ''DATA''],
        requests := \<lambda>x. None, loaded := Suc 0,
        trace :=
          [EvRequest 0, CallLoad 0 (Suc (Suc 0)), CallOpen 0, CallClone 0,
           EvProgress (Suc 0) (Suc 0),
           EvLoad 0 (Some (Resource [''Image''] ''DATA'')),
           EvComplete [Some (Resource [''Image''] ''DATA'')]],
        store :=
          (\<lambda>_. Promise None [])
          (Suc (Suc 0) := Promise None [LoadThen 0 (Suc 0)],
             2 := Promise (Some (Fulfilled (VData ''DATA''))) [],
             Suc 0 :=
               Promise
                (Some
                  (Fulfilled (VRes (Some (Resource [''Image''] ''DATA'')))))
                [],
             Suc (Suc (Suc 0)) :=
               Promise
                (Some
                  (Fulfilled (VArr [Some (Resource [''Image''] ''DATA'')])))
                [],
             0 := Promise
                   (Some
                     (Fulfilled
                       (VArr [Some (Resource [''Image''] ''DATA'')])))
                   []),
        queue := []\<rparr>"
  by (simp add: first_loaded_def first_requested_def imageRequest_def request_new_load
      imageHandler_def load_settles_def resolve_def reject_def settle_def tick_def fire_def
      private_open_def postOpen_def addToCache_def getHash_def fulfilled_def value_of_def
      check_def Let_def)

lemma repeat_objects_facts:
  "promises (heap repeat_objects 1) = []"
  "handlers repeat_objects (rtype (heap repeat_objects 1)) = Some imageHandler"
  "getFromCache (canonical (heap repeat_objects 1)) repeat_objects
     = Some (Resource [''Image''] ''DATA'')"
  "promises (heap repeat_objects 2) = []"
  "handlers repeat_objects (rtype (heap repeat_objects 2)) = Some imageHandler"
  "getFromCache (canonical (heap repeat_objects 2)) repeat_objects
     = Some (Resource [''Image''] ''DATA'')"
  "Type (heap repeat_objects 1) = Some ''Image''"
  "Type (heap repeat_objects 2) = Some ''Pack''"
  "seq (heap repeat_objects 1) = None"
  by (simp_all add: repeat_objects_def first_loaded_eq newRequestObject_def imageRequest_def
      getFromCache_def getHash_def)

section \<open>Concurrent requests\<close>

text \<open>
  Claim C1 says that two identifiers registered against one hash, requested together, cause
  one call of the handler's \<^verbatim>\<open>load\<close>. On the loader of the spec's example, where \<^verbatim>\<open>/a.png\<close>
  and \<^verbatim>\<open>/b.png\<close> both have the hash \<^verbatim>\<open>h1\<close> and \<^verbatim>\<open>/a.png\<close> is canonical,
  \<^verbatim>\<open>request(["/a.png", "/b.png"])\<close> calls \<^verbatim>\<open>load\<close> twice, once for each request object:
  \<^verbatim>\<open>_findExistingRequest\<close> looks the second request up under the canonical field that the
  constructor set to its own identifier, and \<^verbatim>\<open>_makeCanonical\<close> runs only afterwards.
\<close>

theorem two_identifiers_load_twice:
  "hashes image_loader ''/a.png'' = Some ''h1'' \<and> hashes image_loader ''/b.png'' = Some ''h1''
   \<and> canonicals image_loader ''h1'' = Some ''/a.png''
   \<and> trace both_requested = [EvRequest 0, CallLoad 0 2, EvRequest 1, CallLoad 1 4]
   \<and> loads both_requested = 2"
  by (simp add: both_requested_def imageRequest_def two_identifiers_two_loads loads_def)

text \<open>
  Claim C3 says that every failure reaches the caller's promise, also for the second caller
  of a request in flight. Here \<^verbatim>\<open>/a.png\<close> is requested twice (one load, the second request is
  merged into the first), the load is rejected with \<^verbatim>\<open>404\<close>, and all queued callbacks run:
  the promise of the first call (number 0) is rejected, the promise of the second call
  (number 4) is still pending and no callback is left that could settle it.
\<close>

theorem second_caller_never_settles:
  "fst (request_new [imageRequest ''/a.png''] None image_loader) = 0
   \<and> fst (request_new [imageRequest ''/a.png''] None first_requested) = 4
   \<and> loads second_requested = 1
   \<and> settled (store load_failed 2) = Some (Rejected (Str ''404''))
   \<and> settled (store load_failed 0) = Some (Rejected (Str ''404''))
   \<and> settled (store load_failed 4) = None
   \<and> queue load_failed = []"
  by (simp add: load_failed_def second_requested_def first_requested_def imageRequest_def
      request_new_load request_new_merge_pending load_settles_def reject_def settle_def
      tick_def fire_def loads_def)

section \<open>Nested requests\<close>

lemma batch_requested_eq:
  "batch_requested =
     scene_loader
     \<lparr>nextRequest := Suc (Suc (Suc 0)), sequence := Suc (Suc 0),
        trace :=
          [EvRequest 0, CallLoad 0 (Suc (Suc 0)), EvRequest (Suc 0),
           CallLoad (Suc 0) (Suc (Suc (Suc (Suc (Suc (Suc 0)))))),
           EvRequest 0],
        heap :=
          (\<lambda>_. ResourceRequest [] None [] None None)
          (Suc (Suc 0) :=
             ResourceRequest ''image'' (Some ''Image'') ''/x.png'' None
              None,
             Suc 0 :=
               ResourceRequest ''pack'' (Some ''Pack'') ''/scene.pack'' None
                None
               \<lparr>canonical := ''/scene.pack'', seq := Some (Suc 0),
                  promises := [Suc (Suc (Suc (Suc (Suc 0))))]\<rparr>,
             0 := ResourceRequest ''image'' (Some ''Image'') ''/x.png'' None
                   None
               \<lparr>seq := Some 0, rdata := None, canonical := ''/x.png'',
                  promises :=
                    [Suc 0, Suc (Suc (Suc (Suc (Suc (Suc (Suc 0))))))]\<rparr>),
        requests := [''/scene.pack'' \<mapsto> Suc 0, ''/x.png'' \<mapsto> 0],
        requested := Suc (Suc (Suc 0)),
        nextPromise :=
          Suc (Suc (Suc (Suc (Suc (Suc (Suc (Suc (Suc 0)))))))),
        alls :=
          (\<lambda>_. [])
          (Suc (Suc (Suc 0)) := [Suc 0],
             Suc (Suc (Suc (Suc (Suc (Suc (Suc (Suc 0))))))) :=
               [Suc (Suc (Suc (Suc (Suc 0)))),
                Suc (Suc (Suc (Suc (Suc (Suc (Suc 0))))))]),
        store :=
          (\<lambda>_. Promise None [])
          (0 := Promise None [],
             Suc (Suc 0) := Promise None [LoadThen 0 (Suc 0)],
             Suc (Suc (Suc 0)) := Promise None [TopThen 0 [0]],
             Suc (Suc (Suc (Suc 0))) := Promise None [],
             Suc (Suc (Suc (Suc (Suc (Suc 0))))) :=
               Promise None
                [LoadThen (Suc 0) (Suc (Suc (Suc (Suc (Suc 0)))))],
             Suc 0 :=
               Promise None
                [AllElem (Suc (Suc (Suc 0))),
                 DedupThen 0 (Suc (Suc (Suc (Suc (Suc (Suc (Suc 0)))))))],
             Suc (Suc (Suc (Suc (Suc 0)))) :=
               Promise None
                [AllElem (Suc (Suc (Suc (Suc (Suc (Suc (Suc (Suc 0))))))))],
             Suc (Suc (Suc (Suc (Suc (Suc (Suc 0)))))) :=
               Promise None
                [AllElem (Suc (Suc (Suc (Suc (Suc (Suc (Suc (Suc 0))))))))],
             Suc (Suc (Suc (Suc (Suc (Suc (Suc (Suc 0))))))) :=
               Promise None
                [TopThen (Suc (Suc (Suc (Suc 0)))) [Suc 0, 0]])\<rparr>"
  by (simp add: batch_requested_def image_requested_def imageRequest_def packRequest_def request_new_load
     request_new_def newRequestObject_def request_def newPromise_def Let_def findExistingRequest_def promise_all_def then_on_def
     iter_load' iter_merge_pending del: request_loop.simps(2))

lemma batch_requested_promise:
  "fst (request_new [packRequest ''/scene.pack'', imageRequest ''/x.png''] None image_requested) = 4"
  by (simp add: image_requested_def imageRequest_def packRequest_def request_new_load
     request_new_def newRequestObject_def request_def newPromise_def Let_def findExistingRequest_def promise_all_def then_on_def
     iter_load' iter_merge_pending del: request_loop.simps(2))

lemma texture_failed_facts:
  "reactions (store batch_requested 8) = [TopThen 4 [1, 0]]
   \<and> children (heap texture_failed 1) = [3]
   \<and> promises (heap texture_failed 3) = [10]
   \<and> settled (store texture_failed 10) = Some (Rejected (Str ''500''))
   \<and> settled (store texture_failed 2) = Some (Rejected (Str ''404''))
   \<and> settled (store texture_failed 6) = Some (Fulfilled (VData ''PACK''))
   \<and> settled (store texture_failed 11) = Some (Rejected (Str ''500''))
   \<and> settled (store texture_failed 4) = None
   \<and> queue texture_failed = []"
  by (simp add: texture_failed_def image_failed_def pack_opened_def batch_requested_eq tick_defs
      packHandler_def imageRequest_def request_new_load_child)

text \<open>
  Claim C2 says that the promise of a \<^verbatim>\<open>request\<close> call is rejected when the promise of a
  descendant of one of its requests is rejected. Here the call (promise 4) asks for a pack
  (request 1) and for \<^verbatim>\<open>/x.png\<close>, which is merged into request 0, in flight for an earlier
  call. Opening the pack makes request 3 a child of request 1. The load of \<^verbatim>\<open>/x.png\<close> is
  rejected, then the load of the child: the child's promise (number 10) is rejected, every
  promise returned by \<^verbatim>\<open>load\<close> (2, 6 and 11) is settled and no callback is left, and the
  promise of the call is still pending. The promise handed to the merged request never
  settles, so the \<^verbatim>\<open>all\<close> over the top-level promises (number 8) never runs \<^verbatim>\<open>check\<close>, the
  only place that looks at the children.
\<close>

theorem descendant_rejection_not_propagated:
  "fst (request_new [packRequest ''/scene.pack'', imageRequest ''/x.png''] None image_requested) = 4
   \<and> reactions (store batch_requested 8) = [TopThen 4 [1, 0]]
   \<and> children (heap texture_failed 1) = [3]
   \<and> promises (heap texture_failed 3) = [10]
   \<and> settled (store texture_failed 10) = Some (Rejected (Str ''500''))
   \<and> settled (store texture_failed 2) = Some (Rejected (Str ''404''))
   \<and> settled (store texture_failed 6) = Some (Fulfilled (VData ''PACK''))
   \<and> settled (store texture_failed 11) = Some (Rejected (Str ''500''))
   \<and> settled (store texture_failed 4) = None
   \<and> queue texture_failed = []"
  by (rule conjI [OF batch_requested_promise texture_failed_facts])

section \<open>The progress counters\<close>

lemma requested_settle [simp]: "requested (settle p out L) = requested L"
  by (simp add: settle_def split: option.splits)

lemma loaded_settle [simp]: "loaded (settle p out L) = loaded L"
  by (simp add: settle_def split: option.splits)

lemma requested_then_on [simp]: "requested (then_on p rx L) = requested L"
  by (simp add: then_on_def split: option.splits)

lemma requested_addToCache [simp]: "requested (addToCache c res L) = requested L"
  by (simp add: addToCache_def split: option.splits)

lemma loaded_addToCache [simp]: "loaded (addToCache c res L) = loaded L"
  by (simp add: addToCache_def split: option.splits)

lemma handlers_addToCache [simp]: "handlers (addToCache c res L) = handlers L"
  by (simp add: addToCache_def split: option.splits)

lemma heap_addToCache [simp]: "heap (addToCache c res L) = heap L"
  by (simp add: addToCache_def split: option.splits)

lemma requested_postOpen [simp]: "requested (snd (postOpen res r L)) = requested L"
  by (simp add: postOpen_def Let_def fire_def split: option.splits)

lemma requested_primary_executor [simp]: "requested (primary_executor r p L) = requested L"
  by (simp add: primary_executor_def Let_def fire_def resolve_def reject_def newPromise_def
      split_beta split: option.splits sum.splits)


lemma requested_update_request [simp]: "requested (update_request r f L) = requested L"
  by (simp add: update_request_def)

lemma requested_makeCanonical [simp]: "requested (makeCanonical r L) = requested L"
  by (simp add: makeCanonical_def Let_def split: option.splits)

lemma requested_all_subscribe [simp]: "requested (all_subscribe A ps L) = requested L"
  by (induction ps arbitrary: L) simp_all

lemma requested_promise_all [simp]: "requested (snd (promise_all ps L)) = requested L"
  by (simp add: promise_all_def newPromise_def resolve_def Let_def)

lemma requested_newRequestObjects [simp]:
  "requested (snd (newRequestObjects qs L)) = requested L"
  by (induction qs arbitrary: L) (simp_all add: newRequestObject_def split_beta)

lemma length_newRequestObjects [simp]: "length (fst (newRequestObjects qs L)) = length qs"
  by (induction qs arbitrary: L) (simp_all add: newRequestObject_def split_beta)




lemma loaded_then_on [simp]: "loaded (then_on p rx L) = loaded L"
  by (simp add: then_on_def split: option.splits)

lemma loaded_all_subscribe [simp]: "loaded (all_subscribe A ps L) = loaded L"
  by (induction ps arbitrary: L) simp_all

lemma loaded_promise_all [simp]: "loaded (snd (promise_all ps L)) = loaded L"
  by (simp add: promise_all_def newPromise_def resolve_def Let_def)

lemma requested_check [simp]: "requested (check agg res rs L) = requested L"
  by (simp add: check_def Let_def split_beta resolve_def fire_def)

lemma loaded_check [simp]: "loaded (check agg res rs L) = loaded L"
  by (simp add: check_def Let_def split_beta resolve_def fire_def)

lemma store_addToCache [simp]: "store (addToCache c res L) = store L"
  by (simp add: addToCache_def split: option.splits)

lemma requested_fire [simp]: "requested (fire e L) = requested L"
  by (simp add: fire_def)

lemma loaded_fire [simp]: "loaded (fire e L) = loaded L"
  by (simp add: fire_def)








lemma extends_refl [simp]: "extends L L"
  by (simp add: extends_def)


























section \<open>The cache\<close>

text \<open>
  Claim C8. \<^verbatim>\<open>_request\<close> dispatches a request that has no promise yet and whose type has a
  handler, while the cache holds the resource \<open>x\<close> for its canonical identifier. When the
  request declares no \<^verbatim>\<open>Type\<close>, or \<open>x\<close> is an instance of it, the promise is fulfilled from
  the cache (with the clone of \<open>x\<close>) and \<^verbatim>\<open>load\<close> is not called; otherwise \<^verbatim>\<open>load\<close> is called
  once, \<^verbatim>\<open>clone\<close> is not, and the promise stays pending.
\<close>

theorem cache_type_check:
  assumes "promises (heap L r) = []" and "handlers L (rtype (heap L r)) = Some h"
    and "getFromCache (canonical (heap L r)) L = Some x"
  shows "loads (snd (private_request r L))
           = (if Type (heap L r) = None \<or> instanceOf (Some x) (Type (heap L r))
              then loads L else Suc (loads L))
       \<and> clones (snd (private_request r L))
           = (if Type (heap L r) = None \<or> instanceOf (Some x) (Type (heap L r))
              then Suc (clones L) else clones L)
       \<and> settled (store (snd (private_request r L)) (fst (private_request r L)))
           = (if Type (heap L r) = None \<or> instanceOf (Some x) (Type (heap L r))
              then Some (Fulfilled (VRes (h_clone h (Some x)
                     (if seq (heap L r) = None then (heap L r)\<lparr>seq := Some (sequence L)\<rparr>
                      else heap L r))))
              else None)"
  using assms
  by (cases "seq (heap L r)")
     (simp_all add: private_request_def primary_executor_def Let_def fire_def newPromise_def
       update_request_def then_on_def postOpen_def addToCache_same resolve_def settle_def
       loads_def clones_def)

theorem cache_type_check_witness:
  "promises (heap repeat_objects 1) = []
   \<and> handlers repeat_objects (rtype (heap repeat_objects 1)) = Some imageHandler
   \<and> getFromCache (canonical (heap repeat_objects 1)) repeat_objects
       = Some (Resource [''Image''] ''DATA'')
   \<and> loads (snd (private_request 1 repeat_objects)) = loads repeat_objects
   \<and> clones (snd (private_request 1 repeat_objects)) = Suc (clones repeat_objects)
   \<and> promises (heap repeat_objects 2) = []
   \<and> handlers repeat_objects (rtype (heap repeat_objects 2)) = Some imageHandler
   \<and> getFromCache (canonical (heap repeat_objects 2)) repeat_objects
       = Some (Resource [''Image''] ''DATA'')
   \<and> loads (snd (private_request 2 repeat_objects)) = Suc (loads repeat_objects)
   \<and> clones (snd (private_request 2 repeat_objects)) = clones repeat_objects
   \<and> settled (store (snd (private_request 2 repeat_objects))
         (fst (private_request 2 repeat_objects))) = None"
  using repeat_objects_facts
    cache_type_check [OF repeat_objects_facts(1) repeat_objects_facts(2) repeat_objects_facts(3)]
    cache_type_check [OF repeat_objects_facts(4) repeat_objects_facts(5) repeat_objects_facts(6)]
  by (simp add: instanceOf_def)











end
